theory Spec2Isabelle
  imports Complex_Main
begin

section \<open>Configuration\<close>

text \<open>
  \<^verbatim>\<open>CONFIG.itemsPerPage\<close> of \<^verbatim>\<open>script.js\<close>. The other entries of \<^verbatim>\<open>CONFIG\<close>
  (animation delay, scroll offset, cursor smoothing) only drive visual effects.
\<close>

definition itemsPerPage :: int where
  "itemsPerPage = 6"

section \<open>Data model\<close>

text \<open>
  The catalog as \<^verbatim>\<open>gallery-data.json\<close> and \<^verbatim>\<open>getFallbackData\<close> shape it. The
  field \<^verbatim>\<open>id\<close> and \<^verbatim>\<open>name\<close> of each object carry the object's kind as a prefix,
  since all record fields share one name space here. A fandom's \<^verbatim>\<open>products\<close> object
  is the association list of its own properties, in the order \<^verbatim>\<open>Object.keys\<close>
  enumerates them (an object has each key once). The \<^verbatim>\<open>thumbnail\<close> may be missing
  (\<open>None\<close>), which the source covers with \<^verbatim>\<open>||\<close>.
\<close>

record product =
  product_id :: string
  product_image :: string
  product_name :: string

record productType =
  type_id :: string
  type_name :: string
  icon :: string

record fandom =
  fandom_id :: string
  fandom_name :: string
  featured :: bool
  thumbnail :: "string option"
  products :: "(string \<times> product list) list"

record catalog =
  fandoms :: "fandom list"
  productTypes :: "productType list"

text \<open>The global \<^verbatim>\<open>state\<close> object; \<open>None\<close> is JavaScript's \<^verbatim>\<open>null\<close>.\<close>

record state =
  galleryData :: "catalog option"
  currentFandom :: "fandom option"
  currentProductType :: string
  currentPage :: int

section \<open>The document\<close>

text \<open>
  Each element the script looks up with \<^verbatim>\<open>getElementById\<close> is a field of the
  document: \<open>None\<close> when the page has no such element (the lookup returns
  \<^verbatim>\<open>null\<close>), otherwise what the script can change of it.

  The content of a container is the markup the script assigned to its
  \<^verbatim>\<open>innerHTML\<close>: the list of the instantiations of the template literal, each with
  the texts that were interpolated into it, exactly as written (the fields ending in
  \<open>_html\<close>; the script escapes nothing). The class \<^verbatim>\<open>active\<close>, which the handlers
  add and remove on the parsed elements, is a flag of the instantiation. What the
  browser reads back from such a text is the subject of the next section.
\<close>

datatype display = DisplayUnset | DisplayBlock | DisplayNone

record filter_btn =
  data_fandom_html :: string
  filter_label_html :: string
  filter_active :: bool

record featured_item =
  item_fandom_html :: string
  item_src_html :: string
  item_name_html :: string

record product_type_btn =
  data_type_html :: string
  data_lucide_html :: string
  type_label_html :: string
  product_count :: nat
  type_active :: bool

record product_item =
  product_id_html :: string
  product_image_html :: string
  product_name_html :: string

text \<open>
  The two click handlers \<^verbatim>\<open>updatePaginationControls\<close> binds are closures; the one
  of the "next" button captures \<^verbatim>\<open>totalPages\<close>.
\<close>

datatype handler = PrevPageHandler | NextPageHandler int

record button =
  disabled :: bool
  onclick :: "handler option"

record document =
  fandomFilters :: "filter_btn list option"
  featuredGrid :: "featured_item list option"
  featuredView :: "display option"
  fandomView :: "display option"
  selectedFandomName :: "string option"
  productTypeFilters :: "product_type_btn list option"
  productGrid :: "product_item list option"
  prevPage :: "button option"
  nextPage :: "button option"
  galeria :: "nat option"

text \<open>
  \<open>galeria\<close> counts the error banners prepended to the gallery section.

  Errors are values. A function returns an outcome and a world: \<open>Returned\<close> with the
  world it leaves, or \<open>Threw e\<close> with the world as it was when \<open>e\<close> was thrown. The
  third outcome, \<open>Unmodelled\<close>, is that of a click on an element of markup which lies
  outside the part of HTML described in the next section; the world that comes with it
  is the one before the click and says nothing about the script.
\<close>

datatype js_error = TypeError | NetworkError | HttpError nat | SyntaxError

datatype outcome = Returned | Threw js_error | Unmodelled

record world =
  st :: state
  doc :: document
  console :: "js_error list"

type_synonym effect = "world \<Rightarrow> outcome \<times> world"

definition andThen :: "effect \<Rightarrow> effect \<Rightarrow> effect" where
  "andThen f g w =
     (case f w of
        (Returned, w') \<Rightarrow> g w'
      | (Threw e, w') \<Rightarrow> (Threw e, w')
      | (Unmodelled, w') \<Rightarrow> (Unmodelled, w'))"

section \<open>The markup the browser reads back\<close>

text \<open>
  The script writes every identifier between the double quotes of an attribute
  (\<^verbatim>\<open>data-fandom="${fandom.id}"\<close>) and every name also as the text of an element, and
  later finds the elements again with \<^verbatim>\<open>querySelectorAll\<close> and reads the attribute
  with \<^verbatim>\<open>getAttribute\<close>. Between the two stands the HTML parser, of which this much
  is modelled.

  A double quote ends a quoted attribute value, and \<^verbatim>\<open><\<close> in a text may open a tag:
  an instantiation whose attribute texts have no double quote and whose element texts
  have no \<^verbatim>\<open><\<close> is parsed to exactly the elements of the template (it is intact);
  of other markup nothing is said.

  In an attribute value the parser replaces character references. Modelled are the
  named references \<^verbatim>\<open>&amp;\<close>, \<^verbatim>\<open>&lt;\<close>, \<^verbatim>\<open>&gt;\<close>, \<^verbatim>\<open>&quot;\<close> and \<^verbatim>\<open>&apos;\<close>, the
  decimal references \<^verbatim>\<open>&#N;\<close> of the printable ASCII characters, and an ampersand
  that no letter, digit or \<^verbatim>\<open>#\<close> follows, which stands for itself. Where an
  ampersand is followed by a letter, a digit or \<^verbatim>\<open>#\<close> and does not start one of these
  references, it may start one of the many others, and the text has no value here
  (\<open>None\<close>); nor has a text with a NUL or a carriage return, which the parser alters.
\<close>

definition asciiDigit :: "char \<Rightarrow> bool" where
  "asciiDigit c \<longleftrightarrow> 48 \<le> (of_char c :: nat) \<and> (of_char c :: nat) \<le> 57"

definition asciiAlphanumeric :: "char \<Rightarrow> bool" where
  "asciiAlphanumeric c \<longleftrightarrow>
     asciiDigit c
     \<or> (65 \<le> (of_char c :: nat) \<and> (of_char c :: nat) \<le> 90)
     \<or> (97 \<le> (of_char c :: nat) \<and> (of_char c :: nat) \<le> 122)"

definition namedReferences :: "(string \<times> char) list" where
  "namedReferences =
     [(''amp;'', CHR ''&''), (''lt;'', CHR ''<''), (''gt;'', CHR ''>''),
      (''quot;'', CHR 0x22), (''apos;'', CHR 0x27)]"

definition decimal :: "string \<Rightarrow> nat" where
  "decimal ds = foldl (\<lambda>a d. 10 * a + ((of_char d :: nat) - 48)) 0 ds"

text \<open>
  The reference that starts the text after an ampersand: the character it stands for
  and the number of characters it takes up.
\<close>

definition characterReference :: "string \<Rightarrow> (char \<times> nat) option" where
  "characterReference cs =
     (case find (\<lambda>(n, c). take (length n) cs = n) namedReferences of
        Some (n, c) \<Rightarrow> Some (c, length n)
      | None \<Rightarrow>
          (let ds = takeWhile asciiDigit (drop 1 cs)
           in if take 1 cs = ''#'' \<and> ds \<noteq> [] \<and> take 1 (drop (Suc (length ds)) cs) = '';''
                 \<and> 32 \<le> decimal ds \<and> decimal ds \<le> 126
              then Some (char_of (decimal ds), length ds + 2)
              else None))"

fun decodeReferences :: "string \<Rightarrow> string option" where
  "decodeReferences [] = Some []"
| "decodeReferences (c # cs) =
     (if c = CHR 0x00 \<or> c = CHR 0x0D then None
      else if c \<noteq> CHR ''&'' then map_option ((#) c) (decodeReferences cs)
      else
        (case characterReference cs of
           Some (d, n) \<Rightarrow> map_option ((#) d) (decodeReferences (drop n cs))
         | None \<Rightarrow>
             (case cs of
                [] \<Rightarrow> Some [c]
              | h # _ \<Rightarrow>
                  if h = CHR ''#'' \<or> asciiAlphanumeric h then None
                  else map_option ((#) c) (decodeReferences cs))))"

text \<open>What \<^verbatim>\<open>getAttribute\<close> returns for an attribute written as \<^verbatim>\<open>name="${s}"\<close>.\<close>

definition attributeValue :: "string \<Rightarrow> string option" where
  "attributeValue s = (if CHR 0x22 \<in> set s then None else decodeReferences s)"

definition attrIntact :: "string \<Rightarrow> bool" where
  "attrIntact s \<longleftrightarrow> CHR 0x22 \<notin> set s"

definition textIntact :: "string \<Rightarrow> bool" where
  "textIntact s \<longleftrightarrow> CHR ''<'' \<notin> set s"

definition filterBtnIntact :: "filter_btn \<Rightarrow> bool" where
  "filterBtnIntact b \<longleftrightarrow> attrIntact (data_fandom_html b) \<and> textIntact (filter_label_html b)"

definition featuredItemIntact :: "featured_item \<Rightarrow> bool" where
  "featuredItemIntact t \<longleftrightarrow>
     attrIntact (item_fandom_html t) \<and> attrIntact (item_src_html t)
     \<and> attrIntact (item_name_html t) \<and> textIntact (item_name_html t)"

definition productTypeBtnIntact :: "product_type_btn \<Rightarrow> bool" where
  "productTypeBtnIntact b \<longleftrightarrow>
     attrIntact (data_type_html b) \<and> attrIntact (data_lucide_html b)
     \<and> textIntact (type_label_html b)"

section \<open>Library functions of the language\<close>

text \<open>\<^verbatim>\<open>Array.prototype.slice(start, end)\<close>: negative indices count from the end.\<close>

definition js_slice :: "'a list \<Rightarrow> int \<Rightarrow> int \<Rightarrow> 'a list" where
  "js_slice xs start fin =
     (let len = int (length xs);
          k = (if start < 0 then max (len + start) 0 else min start len);
          final = (if fin < 0 then max (len + fin) 0 else min fin len)
      in take (nat (final - k)) (drop (nat k) xs))"

text \<open>
  \<^verbatim>\<open>Math.ceil(a / b)\<close> on numbers. An array length is below \<open>2^32\<close>, where the
  floating-point quotient has the ceiling of the exact one.
\<close>

definition math_ceil_div :: "int \<Rightarrow> int \<Rightarrow> int" where
  "math_ceil_div a b = \<lceil>real_of_int a / real_of_int b\<rceil>"

text \<open>
  A property read \<^verbatim>\<open>obj[key]\<close> on an object that came from JSON: the object's own
  property when it has one of that name; otherwise the member of that name it inherits
  from \<^verbatim>\<open>Object.prototype\<close>, when \<open>key\<close> is one of the names below (each of them a
  function, or the prototype itself for \<^verbatim>\<open>__proto__\<close>: truthy, and not an array);
  otherwise \<^verbatim>\<open>undefined\<close>.
\<close>

definition objectPrototypeNames :: "string list" where
  "objectPrototypeNames =
     [''constructor'', ''__defineGetter__'', ''__defineSetter__'', ''hasOwnProperty'',
      ''__lookupGetter__'', ''__lookupSetter__'', ''isPrototypeOf'', ''propertyIsEnumerable'',
      ''toString'', ''valueOf'', ''__proto__'', ''toLocaleString'']"

datatype 'a property = Own 'a | Inherited | Undefined

definition getProperty :: "(string \<times> 'a) list \<Rightarrow> string \<Rightarrow> 'a property" where
  "getProperty obj k =
     (case map_of obj k of
        Some v \<Rightarrow> Own v
      | None \<Rightarrow> if k \<in> set objectPrototypeNames then Inherited else Undefined)"

section \<open>Fallback data\<close>

definition getFallbackData :: catalog where
  "getFallbackData =
     \<lparr>fandoms =
        [\<lparr>fandom_id = ''isaac'', fandom_name = ''The Binding of Isaac'', featured = True,
          thumbnail = Some ''img/isaac.jpg'',
          products =
            [(''llaveros'',
              [\<lparr>product_id = ''isaac-1'', product_image = ''img/isaac.jpg'',
                product_name = ''Isaac Design 1''\<rparr>,
               \<lparr>product_id = ''isaac-2'', product_image = ''img/isaac.jpg'',
                product_name = ''Isaac Design 2''\<rparr>])]\<rparr>],
      productTypes = [\<lparr>type_id = ''llaveros'', type_name = ''Llaveros'', icon = ''''\<rparr>]\<rparr>"

section \<open>Fandom filters and the featured view\<close>

text \<open>
  The button the template of \<^verbatim>\<open>renderFandomFilters\<close> writes for a fandom:
  \<^verbatim>\<open>data-fandom="${fandom.id}"\<close> and the text \<^verbatim>\<open>${fandom.name}\<close>, as written.
\<close>

definition fandomFilterBtn :: "fandom \<Rightarrow> filter_btn" where
  "fandomFilterBtn f =
     \<lparr>data_fandom_html = fandom_id f, filter_label_html = fandom_name f, filter_active = False\<rparr>"

text \<open>The label of the first button is \<^verbatim>\<open>M\<close>, a-acute (two bytes in UTF-8), \<^verbatim>\<open>s populares\<close>.\<close>

definition allFilterBtn :: filter_btn where
  "allFilterBtn =
     \<lparr>data_fandom_html = ''all'', filter_label_html = ''M'' @ [CHR 0xC3, CHR 0xA1] @ ''s populares'',
      filter_active = True\<rparr>"

definition renderFandomFilters :: effect where
  "renderFandomFilters w =
     (case fandomFilters (doc w) of
        None \<Rightarrow> (Returned, w)
      | Some _ \<Rightarrow>
          (case galleryData (st w) of
             None \<Rightarrow> (Returned, w)
           | Some gd \<Rightarrow>
               (Returned, w\<lparr>doc := (doc w)\<lparr>fandomFilters :=
                          Some (allFilterBtn # map fandomFilterBtn (fandoms gd))\<rparr>\<rparr>)))"

text \<open>
  The tile the template of \<^verbatim>\<open>renderFeaturedProducts\<close> writes for a fandom:
  \<^verbatim>\<open>data-fandom="${fandom.id}"\<close>, \<^verbatim>\<open>src="${thumbnail}"\<close>, and the name both as
  \<^verbatim>\<open>alt="${fandom.name}"\<close> and as the text of the heading, as written.
\<close>

definition featuredItem :: "fandom \<Rightarrow> featured_item" where
  "featuredItem f =
     \<lparr>item_fandom_html = fandom_id f,
      item_src_html = (case thumbnail f of
                    None \<Rightarrow> ''img/placeholder.jpg''
                  | Some t \<Rightarrow> if t = [] then ''img/placeholder.jpg'' else t),
      item_name_html = fandom_name f\<rparr>"

definition renderFeaturedProducts :: effect where
  "renderFeaturedProducts w =
     (case featuredGrid (doc w) of
        None \<Rightarrow> (Returned, w)
      | Some _ \<Rightarrow>
          (case galleryData (st w) of
             None \<Rightarrow> (Returned, w)
           | Some gd \<Rightarrow>
               (Returned, w\<lparr>doc := (doc w)\<lparr>featuredGrid :=
                          Some (map featuredItem (js_slice (fandoms gd) 0 6))\<rparr>\<rparr>)))"

definition initializeGallery :: effect where
  "initializeGallery = andThen renderFandomFilters renderFeaturedProducts"

section \<open>Products and pagination\<close>

definition productItem :: "product \<Rightarrow> product_item" where
  "productItem p =
     \<lparr>product_id_html = product_id p, product_image_html = product_image p,
      product_name_html = product_name p\<rparr>"

text \<open>
  \<^verbatim>\<open>updatePaginationControls\<close> assigns to \<^verbatim>\<open>prevBtn.disabled\<close> and
  \<^verbatim>\<open>nextBtn.disabled\<close> with no check of the lookups: a missing button is a
  \<^verbatim>\<open>TypeError\<close>, raised after the assignments before it.
\<close>

definition updatePaginationControls :: "nat \<Rightarrow> int \<Rightarrow> effect" where
  "updatePaginationControls totalItems totalPages w =
     (case prevPage (doc w) of
        None \<Rightarrow> (Threw TypeError, w)
      | Some prevBtn \<Rightarrow>
          (let prevBtn1 = prevBtn\<lparr>disabled := (currentPage (st w) = 1)\<rparr>;
               w1 = w\<lparr>doc := (doc w)\<lparr>prevPage := Some prevBtn1\<rparr>\<rparr>
           in case nextPage (doc w) of
                None \<Rightarrow> (Threw TypeError, w1)
              | Some nextBtn \<Rightarrow>
                  (let nextBtn1 = nextBtn\<lparr>disabled :=
                         (currentPage (st w) = totalPages \<or> totalPages = 0)\<rparr>
                   in (Returned, w1\<lparr>doc := (doc w1)
                         \<lparr>prevPage := Some (prevBtn1\<lparr>onclick := Some PrevPageHandler\<rparr>),
                          nextPage := Some (nextBtn1\<lparr>onclick :=
                                              Some (NextPageHandler totalPages)\<rparr>)\<rparr>\<rparr>))))"

text \<open>
  \<^verbatim>\<open>state.currentFandom.products[state.currentProductType] || []\<close>, as far as
  \<^verbatim>\<open>renderProducts\<close> can use it: the fandom's own list; the empty list when the
  read gives \<^verbatim>\<open>undefined\<close>; and for an inherited member, which is truthy and has no
  \<^verbatim>\<open>slice\<close>, the \<^verbatim>\<open>TypeError\<close> of the call \<^verbatim>\<open>products.slice(...)\<close>. Nothing is
  written between the read and that call.
\<close>

definition selectedProducts :: "state \<Rightarrow> fandom \<Rightarrow> js_error + product list" where
  "selectedProducts s f =
     (case getProperty (products f) (currentProductType s) of
        Own ps \<Rightarrow> Inr ps
      | Undefined \<Rightarrow> Inr []
      | Inherited \<Rightarrow> Inl TypeError)"

text \<open>
  \<^verbatim>\<open>renderProducts\<close>. The entrance animation that follows the update of the
  pagination controls only sets styles of the new tiles and is left out.
\<close>

definition renderProducts :: effect where
  "renderProducts w =
     (case currentFandom (st w) of
        None \<Rightarrow> (Returned, w)
      | Some f \<Rightarrow>
          (case selectedProducts (st w) f of
             Inl e \<Rightarrow> (Threw e, w)
           | Inr prods \<Rightarrow>
               (let totalPages = math_ceil_div (int (length prods)) itemsPerPage;
                    startIndex = (currentPage (st w) - 1) * itemsPerPage;
                    endIndex = startIndex + itemsPerPage;
                    currentProducts = js_slice prods startIndex endIndex
                in case productGrid (doc w) of
                     None \<Rightarrow> (Returned, w)
                   | Some _ \<Rightarrow>
                       updatePaginationControls (length prods) totalPages
                         (w\<lparr>doc := (doc w)\<lparr>productGrid :=
                               Some (map productItem currentProducts)\<rparr>\<rparr>))))"

text \<open>\<^verbatim>\<open>scrollToProductGrid\<close> scrolls when the grid exists and changes nothing.\<close>

definition scrollToProductGrid :: effect where
  "scrollToProductGrid w = (Returned, w)"

text \<open>The bodies of the two closures, \<open>totalPages\<close> being the captured variable.\<close>

definition prevPageClick :: effect where
  "prevPageClick w =
     (if currentPage (st w) > 1
      then andThen renderProducts scrollToProductGrid
             (w\<lparr>st := (st w)\<lparr>currentPage := currentPage (st w) - 1\<rparr>\<rparr>)
      else (Returned, w))"

definition nextPageClick :: "int \<Rightarrow> effect" where
  "nextPageClick totalPages w =
     (if currentPage (st w) < totalPages
      then andThen renderProducts scrollToProductGrid
             (w\<lparr>st := (st w)\<lparr>currentPage := currentPage (st w) + 1\<rparr>\<rparr>)
      else (Returned, w))"

fun runHandler :: "handler \<Rightarrow> effect" where
  "runHandler PrevPageHandler = prevPageClick"
| "runHandler (NextPageHandler totalPages) = nextPageClick totalPages"

section \<open>Product-type filters\<close>

text \<open>
  One step of the \<^verbatim>\<open>forEach\<close> over \<^verbatim>\<open>Object.keys(fandom.products)\<close>: the markup
  added for the key at position \<open>index\<close>, nothing when the key names no product type.
\<close>

definition productTypeBtn :: "productType list \<Rightarrow> fandom \<Rightarrow> string \<times> nat \<Rightarrow> product_type_btn list" where
  "productTypeBtn pts f ki =
     (case find (\<lambda>pt. type_id pt = fst ki) pts of
        None \<Rightarrow> []
      | Some pt \<Rightarrow>
          [\<lparr>data_type_html = type_id pt, data_lucide_html = icon pt, type_label_html = type_name pt,
            product_count = (case map_of (products f) (fst ki) of
                               None \<Rightarrow> 0 | Some ps \<Rightarrow> length ps),
            type_active = (snd ki = 0)\<rparr>])"

definition productTypeBtns :: "productType list \<Rightarrow> fandom \<Rightarrow> product_type_btn list" where
  "productTypeBtns pts f =
     concat (map (productTypeBtn pts f)
       (zip (map fst (products f)) [0 ..< length (products f)]))"

text \<open>
  \<^verbatim>\<open>renderProductTypeFilters\<close>. The callback reads \<^verbatim>\<open>state.galleryData.productTypes\<close>,
  so with keys to visit and no catalog it throws before the container is written.
  \<^verbatim>\<open>initializeLucideIcons\<close> replaces icon placeholders through an external library
  and changes nothing modelled here.
\<close>

definition renderProductTypeFilters :: "fandom \<Rightarrow> effect" where
  "renderProductTypeFilters f w =
     (case productTypeFilters (doc w) of
        None \<Rightarrow> (Returned, w)
      | Some _ \<Rightarrow>
          (if products f = [] then
             (Returned, w\<lparr>doc := (doc w)\<lparr>productTypeFilters := Some []\<rparr>\<rparr>)
           else
             (case galleryData (st w) of
                None \<Rightarrow> (Threw TypeError, w)
              | Some gd \<Rightarrow>
                  (Returned, w\<lparr>doc := (doc w)\<lparr>productTypeFilters :=
                             Some (productTypeBtns (productTypes gd) f)\<rparr>\<rparr>))))"

text \<open>
  The click handler of the product-type button at position \<open>i\<close> of the container;
  \<^verbatim>\<open>this.getAttribute("data-type")\<close> is the value of the attribute the template
  wrote. There is no such click when the container or the button does not exist.
\<close>

definition productTypeClick :: "nat \<Rightarrow> effect" where
  "productTypeClick i w =
     (case productTypeFilters (doc w) of
        None \<Rightarrow> (Returned, w)
      | Some typeButtons \<Rightarrow>
          (if \<not> list_all productTypeBtnIntact typeButtons then (Unmodelled, w)
           else if length typeButtons \<le> i then (Returned, w)
           else
             (case attributeValue (data_type_html (typeButtons ! i)) of
                None \<Rightarrow> (Unmodelled, w)
              | Some dataType \<Rightarrow>
                  (let this = typeButtons ! i;
                       typeButtons1 = (map (\<lambda>b. b\<lparr>type_active := False\<rparr>) typeButtons)
                                        [i := this\<lparr>type_active := True\<rparr>]
                   in renderProducts
                        (w\<lparr>doc := (doc w)\<lparr>productTypeFilters := Some typeButtons1\<rparr>,
                           st := (st w)\<lparr>currentProductType := dataType,
                                        currentPage := 1\<rparr>\<rparr>)))))"

section \<open>Switching views\<close>

definition setFeaturedViewDisplay :: "display \<Rightarrow> effect" where
  "setFeaturedViewDisplay d w =
     (case featuredView (doc w) of
        None \<Rightarrow> (Threw TypeError, w)
      | Some _ \<Rightarrow> (Returned, w\<lparr>doc := (doc w)\<lparr>featuredView := Some d\<rparr>\<rparr>))"

definition setFandomViewDisplay :: "display \<Rightarrow> effect" where
  "setFandomViewDisplay d w =
     (case fandomView (doc w) of
        None \<Rightarrow> (Threw TypeError, w)
      | Some _ \<Rightarrow> (Returned, w\<lparr>doc := (doc w)\<lparr>fandomView := Some d\<rparr>\<rparr>))"

definition setSelectedFandomName :: "string \<Rightarrow> effect" where
  "setSelectedFandomName n w =
     (case selectedFandomName (doc w) of
        None \<Rightarrow> (Threw TypeError, w)
      | Some _ \<Rightarrow> (Returned, w\<lparr>doc := (doc w)\<lparr>selectedFandomName := Some n\<rparr>\<rparr>))"

definition scrollGaleriaIntoView :: effect where
  "scrollGaleriaIntoView w =
     (case galeria (doc w) of None \<Rightarrow> (Threw TypeError, w) | Some _ \<Rightarrow> (Returned, w))"

definition showFeaturedView :: effect where
  "showFeaturedView =
     andThen (setFeaturedViewDisplay DisplayBlock)
    (andThen (setFandomViewDisplay DisplayNone)
       (\<lambda>w. (Returned, w\<lparr>st := (st w)\<lparr>currentFandom := None\<rparr>\<rparr>)))"

text \<open>\<^verbatim>\<open>Object.keys(fandom.products)[0] || "llaveros"\<close>: the empty key is falsy too.\<close>

definition firstProductType :: "fandom \<Rightarrow> string" where
  "firstProductType f =
     (case map fst (products f) of
        [] \<Rightarrow> ''llaveros''
      | k # _ \<Rightarrow> if k = [] then ''llaveros'' else k)"

definition showFandomDetail :: "string \<Rightarrow> effect" where
  "showFandomDetail fandomId w =
     (case galleryData (st w) of
        None \<Rightarrow> (Threw TypeError, w)
      | Some gd \<Rightarrow>
          (case find (\<lambda>f. fandom_id f = fandomId) (fandoms gd) of
             None \<Rightarrow> (Returned, w)
           | Some f \<Rightarrow>
               andThen (setFeaturedViewDisplay DisplayNone)
              (andThen (setFandomViewDisplay DisplayBlock)
              (andThen (setSelectedFandomName (fandom_name f))
              (andThen (renderProductTypeFilters f)
              (andThen (\<lambda>w1. (Returned, w1\<lparr>st := (st w1)\<lparr>currentProductType :=
                                                       firstProductType f\<rparr>\<rparr>))
              (andThen renderProducts scrollGaleriaIntoView)))))
                 (w\<lparr>st := (st w)\<lparr>currentFandom := Some f, currentPage := 1\<rparr>\<rparr>)))"

text \<open>
  \<^verbatim>\<open>handleFandomFilter\<close>, the event's target being the button at position \<open>i\<close> of
  the fandom filters; \<^verbatim>\<open>e.target.getAttribute("data-fandom")\<close> is the value of the
  attribute the template wrote.
\<close>

definition handleFandomFilter :: "nat \<Rightarrow> effect" where
  "handleFandomFilter i w =
     (case fandomFilters (doc w) of
        None \<Rightarrow> (Returned, w)
      | Some btns \<Rightarrow>
          (if \<not> list_all filterBtnIntact btns then (Unmodelled, w)
           else if length btns \<le> i then (Returned, w)
           else
             (case attributeValue (data_fandom_html (btns ! i)) of
                None \<Rightarrow> (Unmodelled, w)
              | Some fandomId \<Rightarrow>
                  (let target = btns ! i;
                       btns1 = (map (\<lambda>b. b\<lparr>filter_active := False\<rparr>) btns)
                                 [i := target\<lparr>filter_active := True\<rparr>];
                       w1 = w\<lparr>doc := (doc w)\<lparr>fandomFilters := Some btns1\<rparr>\<rparr>
                   in if fandomId = ''all'' then showFeaturedView w1
                      else showFandomDetail fandomId w1))))"

text \<open>The click handler of the featured tile at position \<open>i\<close> of the featured grid.\<close>

definition featuredItemClick :: "nat \<Rightarrow> effect" where
  "featuredItemClick i w =
     (case featuredGrid (doc w) of
        None \<Rightarrow> (Returned, w)
      | Some items \<Rightarrow>
          (if \<not> list_all featuredItemIntact items then (Unmodelled, w)
           else if length items \<le> i then (Returned, w)
           else
             (case attributeValue (item_fandom_html (items ! i)) of
                None \<Rightarrow> (Unmodelled, w)
              | Some fandomId \<Rightarrow> showFandomDetail fandomId w)))"

section \<open>Loading the catalog\<close>

text \<open>
  What \<^verbatim>\<open>fetch\<close> and \<^verbatim>\<open>response.json()\<close> can give: a rejected request, or a
  response with its \<^verbatim>\<open>ok\<close> flag, its status and its body, \<open>None\<close> for a body that
  does not parse. A body that parses is taken to have the shape of a catalog.
\<close>

datatype fetch_result = FetchRejected | Response bool nat "catalog option"

definition tryLoad :: "fetch_result \<Rightarrow> effect" where
  "tryLoad r w =
     (case r of
        FetchRejected \<Rightarrow> (Threw NetworkError, w)
      | Response ok status body \<Rightarrow>
          (if \<not> ok then (Threw (HttpError status), w)
           else
             (case body of
                None \<Rightarrow> (Threw SyntaxError, w)
              | Some gd \<Rightarrow> initializeGallery (w\<lparr>st := (st w)\<lparr>galleryData := Some gd\<rparr>\<rparr>))))"

definition showErrorMessage :: effect where
  "showErrorMessage w =
     (case galeria (doc w) of
        None \<Rightarrow> (Returned, w)
      | Some n \<Rightarrow> (Returned, w\<lparr>doc := (doc w)\<lparr>galeria := Some (Suc n)\<rparr>\<rparr>))"

definition loadGalleryData :: "fetch_result \<Rightarrow> effect" where
  "loadGalleryData r w =
     (case tryLoad r w of
        (Returned, w1) \<Rightarrow> (Returned, w1)
      | (Unmodelled, w1) \<Rightarrow> (Unmodelled, w1)
      | (Threw error, w1) \<Rightarrow>
          andThen showErrorMessage
            (\<lambda>w2. initializeGallery (w2\<lparr>st := (st w2)\<lparr>galleryData := Some getFallbackData\<rparr>\<rparr>))
            (w1\<lparr>console := console w1 @ [error]\<rparr>))"

section \<open>Events\<close>

text \<open>
  The state of the script before the catalog is loaded, over a given document, and
  the clicks a user can make afterwards.
\<close>

definition initialState :: state where
  "initialState =
     \<lparr>galleryData = None, currentFandom = None, currentProductType = ''llaveros'',
      currentPage = 1\<rparr>"

definition initialWorld :: "document \<Rightarrow> world" where
  "initialWorld d = \<lparr>st = initialState, doc = d, console = []\<rparr>"

datatype event =
    FandomFilterClicked nat
  | FeaturedItemClicked nat
  | ProductTypeClicked nat
  | PrevPageClicked
  | NextPageClicked

definition buttonClick :: "button option \<Rightarrow> effect" where
  "buttonClick b w =
     (case b of
        None \<Rightarrow> (Returned, w)
      | Some btn \<Rightarrow> (case onclick btn of None \<Rightarrow> (Returned, w) | Some h \<Rightarrow> runHandler h w))"

fun dispatch :: "event \<Rightarrow> effect" where
  "dispatch (FandomFilterClicked i) w = handleFandomFilter i w"
| "dispatch (FeaturedItemClicked i) w = featuredItemClick i w"
| "dispatch (ProductTypeClicked i) w = productTypeClick i w"
| "dispatch PrevPageClicked w = buttonClick (prevPage (doc w)) w"
| "dispatch NextPageClicked w = buttonClick (nextPage (doc w)) w"

text \<open>
  A sequence of clicks, as long as each of them is modelled. An exception a handler
  lets escape ends that handler only: the changes made before it stay.
\<close>

fun run :: "event list \<Rightarrow> world \<Rightarrow> world option" where
  "run [] w = Some w"
| "run (e # es) w =
     (case dispatch e w of
        (Unmodelled, _) \<Rightarrow> None
      | (Returned, w') \<Rightarrow> run es w'
      | (Threw _, w') \<Rightarrow> run es w')"

text \<open>
  The fetch results the loader treats as a failure: a rejected request, a response
  that is not \<^verbatim>\<open>ok\<close>, a body that does not parse.
\<close>

fun fetchFailed :: "fetch_result \<Rightarrow> bool" where
  "fetchFailed FetchRejected = True"
| "fetchFailed (Response ok status body) = (\<not> ok \<or> body = None)"

section \<open>Properties of effects\<close>

text \<open>
  Two properties of an effect used in the proofs below: it leaves the selected fandom
  and the page as they are; it leaves the display of the two views as it is.
\<close>

definition keepsSelection :: "effect \<Rightarrow> bool" where
  "keepsSelection f \<longleftrightarrow>
     (\<forall>w. currentFandom (st (snd (f w))) = currentFandom (st w)
        \<and> currentPage (st (snd (f w))) = currentPage (st w))"

definition keepsDisplays :: "effect \<Rightarrow> bool" where
  "keepsDisplays f \<longleftrightarrow>
     (\<forall>w. featuredView (doc (snd (f w))) = featuredView (doc w)
        \<and> fandomView (doc (snd (f w))) = fandomView (doc w))"

section \<open>Sample data\<close>

text \<open>
  A catalog with two fandoms and one product type, the second fandom having thirteen
  products of that type, and a document that has every element the script looks up.
\<close>

definition sampleProduct :: "nat \<Rightarrow> product" where
  "sampleProduct i =
     \<lparr>product_id = replicate i CHR ''z'', product_image = ''z.jpg'', product_name = ''Z''\<rparr>"

definition sampleFandom :: fandom where
  "sampleFandom =
     \<lparr>fandom_id = ''zelda'', fandom_name = ''Zelda'', featured = True, thumbnail = None,
      products = [(''llaveros'', map sampleProduct [0 ..< 13])]\<rparr>"

definition sampleCatalog :: catalog where
  "sampleCatalog =
     \<lparr>fandoms = fandoms getFallbackData @ [sampleFandom],
      productTypes = productTypes getFallbackData\<rparr>"

definition fullDocument :: document where
  "fullDocument =
     \<lparr>fandomFilters = Some [], featuredGrid = Some [], featuredView = Some DisplayUnset,
      fandomView = Some DisplayUnset, selectedFandomName = Some [],
      productTypeFilters = Some [], productGrid = Some [],
      prevPage = Some \<lparr>disabled = False, onclick = None\<rparr>,
      nextPage = Some \<lparr>disabled = False, onclick = None\<rparr>,
      galeria = Some 0\<rparr>"

text \<open>The script after it has loaded a catalog, or the sample catalog, into a document.\<close>

definition loadCatalog :: "catalog \<Rightarrow> document \<Rightarrow> world" where
  "loadCatalog c d = snd (loadGalleryData (Response True 200 (Some c)) (initialWorld d))"

definition loadedInto :: "document \<Rightarrow> world" where
  "loadedInto d = loadCatalog sampleCatalog d"

definition loadedWorld :: world where
  "loadedWorld = loadedInto fullDocument"

text \<open>
  The second fandom selected and "next" clicked once; the fallback catalog, loaded
  after a failed fetch.
\<close>

definition pageTwoWorld :: world where
  "pageTwoWorld =
     snd (dispatch NextPageClicked (snd (dispatch (FandomFilterClicked 2) loadedWorld)))"


text \<open>
  The detail view of the second fandom on page \<open>k\<close>; the same with the product type
  \<^verbatim>\<open>constructor\<close>, which the fandom has no products of and every object inherits;
  and with the product type \<^verbatim>\<open>stickers\<close>, which the fandom has no products of.
\<close>

definition pageWorld :: "int \<Rightarrow> world" where
  "pageWorld k =
     \<lparr>st = \<lparr>galleryData = Some sampleCatalog, currentFandom = Some sampleFandom,
             currentProductType = ''llaveros'', currentPage = k\<rparr>,
      doc = fullDocument, console = []\<rparr>"

definition inheritedNameWorld :: "int \<Rightarrow> world" where
  "inheritedNameWorld k =
     (pageWorld k)\<lparr>st := (st (pageWorld k))\<lparr>currentProductType := ''constructor''\<rparr>\<rparr>"

definition missingTypeWorld :: world where
  "missingTypeWorld = (pageWorld 1)\<lparr>st := (st (pageWorld 1))\<lparr>currentProductType := ''stickers''\<rparr>\<rparr>"



text \<open>
  The sample catalog loaded into a page that has no "previous" button, and into a page
  that has no featured-view container.
\<close>

definition noPrevButtonWorld :: world where
  "noPrevButtonWorld = loadedInto (fullDocument\<lparr>prevPage := None\<rparr>)"

definition noFeaturedViewWorld :: world where
  "noFeaturedViewWorld = loadedInto (fullDocument\<lparr>featuredView := None\<rparr>)"



text \<open>
  A catalog whose only product type has the id \<^verbatim>\<open>&#99;onstructor\<close>, which an
  attribute reads back as \<^verbatim>\<open>constructor\<close>; the catalog loaded and its fandom
  selected.
\<close>

definition referenceTypeCatalog :: catalog where
  "referenceTypeCatalog =
     \<lparr>fandoms =
        [sampleFandom\<lparr>products := [(''&#99;onstructor'', map sampleProduct [0 ..< 13])]\<rparr>],
      productTypes = [\<lparr>type_id = ''&#99;onstructor'', type_name = ''C'', icon = []\<rparr>]\<rparr>"

definition referenceTypeWorld :: world where
  "referenceTypeWorld =
     snd (dispatch (FandomFilterClicked 1) (loadCatalog referenceTypeCatalog fullDocument))"

text \<open>
  A fandom whose first product-type key, \<^verbatim>\<open>stickers\<close>, is not a product type of the
  catalog.
\<close>

definition unresolvedFirstFandom :: fandom where
  "unresolvedFirstFandom =
     sampleFandom\<lparr>products := [(''stickers'', [sampleProduct 0]),
                                 (''llaveros'', [sampleProduct 1, sampleProduct 2])]\<rparr>"

section \<open>Facts about the library functions and the renderers\<close>

lemma math_ceil_div_int: "math_ceil_div a b = - ((- a) div b)"
  unfolding math_ceil_div_def by (rule ceiling_divide_eq_div)

lemma totalPages_div: "math_ceil_div (int n) itemsPerPage = (int n + 5) div 6"
  unfolding math_ceil_div_int itemsPerPage_def by presburger

lemma totalPages_ceiling: "\<lceil>real_of_int (int n) / 6\<rceil> = (int n + 5) div 6"
  using totalPages_div [of n] by (simp add: math_ceil_div_def itemsPerPage_def)

lemma js_slice_nonneg:
  assumes "0 \<le> s" and "s \<le> e"
  shows "js_slice xs s e = take (nat (e - s)) (drop (nat s) xs)"
  using assms unfolding js_slice_def Let_def
  by (auto simp: min_def max_def)

lemma js_slice_page:
  assumes "1 \<le> k"
  shows "js_slice xs ((k - 1) * itemsPerPage) ((k - 1) * itemsPerPage + itemsPerPage)
           = take 6 (drop (nat ((k - 1) * 6)) xs)"
  using assms by (simp add: js_slice_nonneg itemsPerPage_def)

lemma js_slice_length_le: "s \<le> e \<Longrightarrow> int (length (js_slice xs s e)) \<le> e - s"
  unfolding js_slice_def Let_def
  by (auto simp: min_def max_def)

lemma js_slice_take: "0 \<le> n \<Longrightarrow> js_slice xs 0 n = take (nat n) xs"
  by (simp add: js_slice_nonneg)

lemma page_length:
  assumes "1 \<le> k"
  shows "int (length (take 6 (drop (nat ((k - 1) * 6)) xs))) =
           (if k \<le> (int (length xs) + 5) div 6 then min 6 (int (length xs) - (k - 1) * 6) else 0)"
  using assms by (auto simp: min_def)

lemma selectedProducts_cases:
  "selectedProducts s f = Inl TypeError
   \<or> (\<exists>prods. selectedProducts s f = Inr prods)"
  unfolding selectedProducts_def by (simp split: property.splits)

lemma selectedProducts_own:
  "map_of (products f) (currentProductType s) = Some prods \<Longrightarrow> selectedProducts s f = Inr prods"
  by (simp add: selectedProducts_def getProperty_def)

lemma selectedProducts_undefined:
  "getProperty (products f) (currentProductType s) = Undefined \<Longrightarrow> selectedProducts s f = Inr []"
  by (simp add: selectedProducts_def)

lemma selectedProducts_inherited:
  "getProperty (products f) (currentProductType s) = Inherited \<Longrightarrow>
     selectedProducts s f = Inl TypeError"
  by (simp add: selectedProducts_def)

lemma updatePaginationControls_productGrid:
  "productGrid (doc (snd (updatePaginationControls n tp w))) = productGrid (doc w)"
  unfolding updatePaginationControls_def Let_def
  by (simp split: option.splits)

lemma updatePaginationControls_st:
  "st (snd (updatePaginationControls n tp w)) = st w"
  unfolding updatePaginationControls_def Let_def
  by (simp split: option.splits)

lemma updatePaginationControls_displays:
  "featuredView (doc (snd (updatePaginationControls n tp w))) = featuredView (doc w)"
  "fandomView (doc (snd (updatePaginationControls n tp w))) = fandomView (doc w)"
  unfolding updatePaginationControls_def Let_def
  by (simp_all split: option.splits)

lemma updatePaginationControls_ok:
  assumes "prevPage (doc w) = Some pb" and "nextPage (doc w) = Some nb"
  shows "updatePaginationControls n tp w =
     (Returned, w\<lparr>doc := (doc w)
        \<lparr>prevPage := Some \<lparr>disabled = (currentPage (st w) = 1), onclick = Some PrevPageHandler\<rparr>,
         nextPage := Some \<lparr>disabled = (currentPage (st w) = tp \<or> tp = 0),
                            onclick = Some (NextPageHandler tp)\<rparr>\<rparr>\<rparr>)"
  using assms unfolding updatePaginationControls_def Let_def
  by simp

lemma renderProducts_null: "currentFandom (st w) = None \<Longrightarrow> renderProducts w = (Returned, w)"
  by (simp add: renderProducts_def)

lemma renderProducts_inherited:
  assumes "currentFandom (st w) = Some f" and "selectedProducts (st w) f = Inl e"
  shows "renderProducts w = (Threw e, w)"
  using assms by (simp add: renderProducts_def)

lemma renderProducts_no_grid:
  assumes "currentFandom (st w) = Some f" and "selectedProducts (st w) f = Inr prods"
    and "productGrid (doc w) = None"
  shows "renderProducts w = (Returned, w)"
  using assms by (simp add: renderProducts_def Let_def)

lemma renderProducts_grid:
  assumes "currentFandom (st w) = Some f" and "selectedProducts (st w) f = Inr prods"
    and "productGrid (doc w) = Some g"
  shows "productGrid (doc (snd (renderProducts w))) =
           Some (map productItem (js_slice prods
                   ((currentPage (st w) - 1) * itemsPerPage)
                   ((currentPage (st w) - 1) * itemsPerPage + itemsPerPage)))"
  using assms unfolding renderProducts_def Let_def
  by (simp add: updatePaginationControls_productGrid)

lemma renderProducts_ok:
  assumes "currentFandom (st w) = Some f" and "selectedProducts (st w) f = Inr prods"
    and "productGrid (doc w) = Some g"
    and "prevPage (doc w) = Some pb" and "nextPage (doc w) = Some nb"
  shows "fst (renderProducts w) = Returned"
    and "nextPage (doc (snd (renderProducts w))) =
           Some \<lparr>disabled = (currentPage (st w) = math_ceil_div (int (length prods)) itemsPerPage
                     \<or> math_ceil_div (int (length prods)) itemsPerPage = 0),
                 onclick = Some (NextPageHandler (math_ceil_div (int (length prods)) itemsPerPage))\<rparr>"
    and "prevPage (doc (snd (renderProducts w))) =
           Some \<lparr>disabled = (currentPage (st w) = 1), onclick = Some PrevPageHandler\<rparr>"
  using assms unfolding renderProducts_def Let_def
  by (simp_all add: updatePaginationControls_ok)

lemma renderProducts_st: "st (snd (renderProducts w)) = st w"
  unfolding renderProducts_def Let_def
  by (simp add: updatePaginationControls_st split: option.splits sum.splits)

lemma renderProducts_displays:
  "featuredView (doc (snd (renderProducts w))) = featuredView (doc w)"
  "fandomView (doc (snd (renderProducts w))) = fandomView (doc w)"
  unfolding renderProducts_def Let_def
  by (simp_all add: updatePaginationControls_displays split: option.splits sum.splits)

lemma renderProducts_scroll_st:
  "st (snd (andThen renderProducts scrollToProductGrid w)) = st w"
proof (cases "renderProducts w")
  case (Pair r w1)
  then have "st w1 = st w"
    using renderProducts_st [of w] by simp
  with Pair show ?thesis
    by (cases r) (simp_all add: andThen_def scrollToProductGrid_def)
qed

lemma prevPageClick_page:
  "currentPage (st (snd (prevPageClick w))) =
     (if 1 < currentPage (st w) then currentPage (st w) - 1 else currentPage (st w))"
  unfolding prevPageClick_def by (simp add: renderProducts_scroll_st)

lemma nextPageClick_page:
  "currentPage (st (snd (nextPageClick tp w))) =
     (if currentPage (st w) < tp then currentPage (st w) + 1 else currentPage (st w))"
  unfolding nextPageClick_def by (simp add: renderProducts_scroll_st)

lemma renderProducts_at_most_page:
  assumes "currentFandom (st w) = Some f" and "selectedProducts (st w) f = Inr prods"
    and "productGrid (doc w) = Some g"
  shows "\<exists>tiles. productGrid (doc (snd (renderProducts w))) = Some tiles \<and> length tiles \<le> 6"
proof -
  let ?s = "(currentPage (st w) - 1) * itemsPerPage"
  have "int (length (js_slice prods ?s (?s + itemsPerPage))) \<le> itemsPerPage"
    using js_slice_length_le [of ?s "?s + itemsPerPage"] by (simp add: itemsPerPage_def)
  then show ?thesis
    unfolding renderProducts_grid [OF assms] by (simp add: itemsPerPage_def)
qed

lemma sample_products:
  "selectedProducts (st (pageWorld k)) sampleFandom = Inr (map sampleProduct [0 ..< 13])"
  by (simp add: pageWorld_def selectedProducts_def getProperty_def sampleFandom_def)

lemma initializeGallery_returns: "fst (initializeGallery w) = Returned"
  unfolding initializeGallery_def andThen_def renderFandomFilters_def renderFeaturedProducts_def
  by (simp split: option.splits)

lemma initializeGallery_st: "st (snd (initializeGallery w)) = st w"
  unfolding initializeGallery_def andThen_def renderFandomFilters_def renderFeaturedProducts_def
  by (simp split: option.splits)

lemma initializeGallery_filters:
  assumes "galleryData (st w) = Some gd" and "fandomFilters (doc w) = Some b"
  shows "fandomFilters (doc (snd (initializeGallery w))) =
           Some (allFilterBtn # map fandomFilterBtn (fandoms gd))"
  using assms
  unfolding initializeGallery_def andThen_def renderFandomFilters_def renderFeaturedProducts_def
  by (simp split: option.splits)

lemma initializeGallery_grid:
  assumes "galleryData (st w) = Some gd" and "featuredGrid (doc w) = Some g"
  shows "featuredGrid (doc (snd (initializeGallery w))) =
           Some (map featuredItem (take 6 (fandoms gd)))"
  using assms
  unfolding initializeGallery_def andThen_def renderFandomFilters_def renderFeaturedProducts_def
  by (simp add: js_slice_take split: option.splits)

lemma tryLoad_failed: "fetchFailed r \<Longrightarrow> \<exists>e. tryLoad r w = (Threw e, w)"
  by (cases r) (auto simp: tryLoad_def)

lemma loadGalleryData_failed:
  assumes "tryLoad r w = (Threw e, w)"
  shows "loadGalleryData r w =
           initializeGallery
             ((snd (showErrorMessage (w\<lparr>console := console w @ [e]\<rparr>)))
                \<lparr>st := (st w)\<lparr>galleryData := Some getFallbackData\<rparr>\<rparr>)"
  using assms unfolding loadGalleryData_def andThen_def showErrorMessage_def
  by (simp split: option.splits)

lemma showErrorMessage_doc:
  "fandomFilters (doc (snd (showErrorMessage w))) = fandomFilters (doc w)"
  "featuredGrid (doc (snd (showErrorMessage w))) = featuredGrid (doc w)"
  "console (snd (showErrorMessage w)) = console w"
  unfolding showErrorMessage_def by (simp_all split: option.splits)

lemma keepsSelection_andThen:
  assumes "keepsSelection f" and "keepsSelection g"
  shows "keepsSelection (andThen f g)"
  unfolding keepsSelection_def
proof (intro allI)
  fix w
  obtain r w1 where f: "f w = (r, w1)" by (cases "f w")
  have 1: "currentFandom (st w1) = currentFandom (st w) \<and> currentPage (st w1) = currentPage (st w)"
    using assms(1) f unfolding keepsSelection_def by (metis snd_conv)
  have 2: "currentFandom (st (snd (g w1))) = currentFandom (st w1)
         \<and> currentPage (st (snd (g w1))) = currentPage (st w1)"
    using assms(2) unfolding keepsSelection_def by blast
  show "currentFandom (st (snd (andThen f g w))) = currentFandom (st w)
      \<and> currentPage (st (snd (andThen f g w))) = currentPage (st w)"
    using f 1 2 by (cases r) (simp_all add: andThen_def)
qed

lemma keepsDisplays_andThen:
  assumes "keepsDisplays f" and "keepsDisplays g"
  shows "keepsDisplays (andThen f g)"
  unfolding keepsDisplays_def
proof (intro allI)
  fix w
  obtain r w1 where f: "f w = (r, w1)" by (cases "f w")
  have 1: "featuredView (doc w1) = featuredView (doc w) \<and> fandomView (doc w1) = fandomView (doc w)"
    using assms(1) f unfolding keepsDisplays_def by (metis snd_conv)
  have 2: "featuredView (doc (snd (g w1))) = featuredView (doc w1)
         \<and> fandomView (doc (snd (g w1))) = fandomView (doc w1)"
    using assms(2) unfolding keepsDisplays_def by blast
  show "featuredView (doc (snd (andThen f g w))) = featuredView (doc w)
      \<and> fandomView (doc (snd (andThen f g w))) = fandomView (doc w)"
    using f 1 2 by (cases r) (simp_all add: andThen_def)
qed

lemma keeps_setFeaturedViewDisplay: "keepsSelection (setFeaturedViewDisplay d)"
  unfolding keepsSelection_def setFeaturedViewDisplay_def by (simp split: option.splits)

lemma keeps_setFandomViewDisplay: "keepsSelection (setFandomViewDisplay d)"
  unfolding keepsSelection_def setFandomViewDisplay_def by (simp split: option.splits)

lemma keeps_setSelectedFandomName:
  "keepsSelection (setSelectedFandomName n)" "keepsDisplays (setSelectedFandomName n)"
  unfolding keepsSelection_def keepsDisplays_def setSelectedFandomName_def
  by (simp_all split: option.splits)

lemma keeps_renderProductTypeFilters:
  "keepsSelection (renderProductTypeFilters f)" "keepsDisplays (renderProductTypeFilters f)"
  unfolding keepsSelection_def keepsDisplays_def renderProductTypeFilters_def
  by (simp_all split: option.splits)

lemma keeps_setProductType:
  "keepsSelection (\<lambda>w1. (Returned, w1\<lparr>st := (st w1)\<lparr>currentProductType := t\<rparr>\<rparr>))"
  "keepsDisplays (\<lambda>w1. (Returned, w1\<lparr>st := (st w1)\<lparr>currentProductType := t\<rparr>\<rparr>))"
  unfolding keepsSelection_def keepsDisplays_def by simp_all

lemma keeps_renderProducts: "keepsSelection renderProducts" "keepsDisplays renderProducts"
  unfolding keepsSelection_def keepsDisplays_def
  by (simp_all add: renderProducts_st renderProducts_displays)

lemma keeps_scrollGaleriaIntoView:
  "keepsSelection scrollGaleriaIntoView" "keepsDisplays scrollGaleriaIntoView"
  unfolding keepsSelection_def keepsDisplays_def scrollGaleriaIntoView_def
  by (simp_all split: option.splits)

lemmas keeps_detail_tail =
  keepsSelection_andThen keepsDisplays_andThen keeps_setSelectedFandomName
  keeps_renderProductTypeFilters keeps_setProductType keeps_renderProducts
  keeps_scrollGaleriaIntoView

lemma showFandomDetail_found:
  assumes "galleryData (st w) = Some gd"
    and "find (\<lambda>f. fandom_id f = fandomId) (fandoms gd) = Some f"
  shows "currentFandom (st (snd (showFandomDetail fandomId w))) = Some f"
    and "currentPage (st (snd (showFandomDetail fandomId w))) = 1"
proof -
  let ?steps = "andThen (setFeaturedViewDisplay DisplayNone)
              (andThen (setFandomViewDisplay DisplayBlock)
              (andThen (setSelectedFandomName (fandom_name f))
              (andThen (renderProductTypeFilters f)
              (andThen (\<lambda>w1. (Returned, w1\<lparr>st := (st w1)\<lparr>currentProductType :=
                                                       firstProductType f\<rparr>\<rparr>))
              (andThen renderProducts scrollGaleriaIntoView)))))"
  have k: "keepsSelection ?steps"
    by (intro keepsSelection_andThen keeps_setFeaturedViewDisplay keeps_setFandomViewDisplay
          keeps_detail_tail)
  have s: "showFandomDetail fandomId w =
             ?steps (w\<lparr>st := (st w)\<lparr>currentFandom := Some f, currentPage := 1\<rparr>\<rparr>)"
    using assms by (simp add: showFandomDetail_def)
  show "currentFandom (st (snd (showFandomDetail fandomId w))) = Some f"
    and "currentPage (st (snd (showFandomDetail fandomId w))) = 1"
    unfolding s using k unfolding keepsSelection_def by simp_all
qed

lemma showFandomDetail_not_found:
  assumes "galleryData (st w) = Some gd"
    and "find (\<lambda>f. fandom_id f = fandomId) (fandoms gd) = None"
  shows "showFandomDetail fandomId w = (Returned, w)"
  using assms by (simp add: showFandomDetail_def)




lemma showFandomDetail_st:
  "st (snd (showFandomDetail fandomId w)) = st w
   \<or> currentPage (st (snd (showFandomDetail fandomId w))) = 1"
proof (cases "galleryData (st w)")
  case None
  then show ?thesis by (simp add: showFandomDetail_def)
next
  case (Some gd)
  show ?thesis
  proof (cases "find (\<lambda>f. fandom_id f = fandomId) (fandoms gd)")
    case None
    with Some show ?thesis by (simp add: showFandomDetail_def)
  next
    case (Some f)
    with \<open>galleryData (st w) = Some gd\<close> show ?thesis
      by (simp add: showFandomDetail_found(2))
  qed
qed

lemma showFeaturedView_st:
  "st (snd (showFeaturedView w)) = st w
   \<or> st (snd (showFeaturedView w)) = (st w)\<lparr>currentFandom := None\<rparr>"
  unfolding showFeaturedView_def andThen_def setFeaturedViewDisplay_def setFandomViewDisplay_def
  by (simp split: option.splits)

lemma showFeaturedView_page:
  "currentPage (st (snd (showFeaturedView w))) = currentPage (st w)"
  using showFeaturedView_st [of w] by auto

lemma handleFandomFilter_target:
  assumes "fandomFilters (doc w) = Some btns" and "list_all filterBtnIntact btns"
    and "i < length btns" and "attributeValue (data_fandom_html (btns ! i)) = Some fandomId"
  shows "handleFandomFilter i w =
           (if fandomId = ''all'' then showFeaturedView else showFandomDetail fandomId)
             (w\<lparr>doc := (doc w)\<lparr>fandomFilters :=
                   Some ((map (\<lambda>b. b\<lparr>filter_active := False\<rparr>) btns)
                           [i := (btns ! i)\<lparr>filter_active := True\<rparr>])\<rparr>\<rparr>)"
  using assms by (simp add: handleFandomFilter_def Let_def)

lemma handleFandomFilter_st:
  "currentPage (st (snd (handleFandomFilter i w))) = 1
   \<or> st (snd (handleFandomFilter i w)) = st w
   \<or> st (snd (handleFandomFilter i w)) = (st w)\<lparr>currentFandom := None\<rparr>"
proof (cases "fandomFilters (doc w)")
  case None
  then show ?thesis by (simp add: handleFandomFilter_def)
next
  case (Some btns)
  define w1 where
    "w1 = w\<lparr>doc := (doc w)\<lparr>fandomFilters :=
              Some ((map (\<lambda>b. b\<lparr>filter_active := False\<rparr>) btns)
                      [i := (btns ! i)\<lparr>filter_active := True\<rparr>])\<rparr>\<rparr>"
  have s: "st w1 = st w" by (simp add: w1_def)
  show ?thesis
  proof (cases "list_all filterBtnIntact btns \<and> i < length btns")
    case False
    with Some show ?thesis by (auto simp: handleFandomFilter_def)
  next
    case True
    show ?thesis
    proof (cases "attributeValue (data_fandom_html (btns ! i))")
      case None
      with Some True show ?thesis by (simp add: handleFandomFilter_def)
    next
      case (Some fandomId)
      have h: "handleFandomFilter i w =
          (if fandomId = ''all'' then showFeaturedView else showFandomDetail fandomId) w1"
        unfolding w1_def
        using handleFandomFilter_target [OF \<open>fandomFilters (doc w) = Some btns\<close> _ _ Some] True
        by simp
      show ?thesis
        unfolding h
        using showFeaturedView_st [of w1] showFandomDetail_st [of fandomId w1]
        by (auto simp: s)
    qed
  qed
qed

lemma featuredItemClick_st:
  "st (snd (featuredItemClick i w)) = st w
   \<or> currentPage (st (snd (featuredItemClick i w))) = 1"
  unfolding featuredItemClick_def
  using showFandomDetail_st
  by (simp split: option.splits)

lemma productTypeClick_st:
  "st (snd (productTypeClick i w)) = st w
   \<or> currentPage (st (snd (productTypeClick i w))) = 1"
  unfolding productTypeClick_def Let_def
  by (simp add: renderProducts_st split: option.splits)

lemma productTypeClick_selects:
  assumes "productTypeFilters (doc w) = Some btns" and "list_all productTypeBtnIntact btns"
    and "i < length btns" and "attributeValue (data_type_html (btns ! i)) = Some t"
  shows "currentProductType (st (snd (productTypeClick i w))) = t"
    and "currentPage (st (snd (productTypeClick i w))) = 1"
  using assms unfolding productTypeClick_def Let_def
  by (simp_all add: renderProducts_st)

lemma prevPageClick_st:
  "st (snd (prevPageClick w)) = (st w)\<lparr>currentPage := currentPage (st (snd (prevPageClick w)))\<rparr>"
  unfolding prevPageClick_def by (simp add: renderProducts_scroll_st)

lemma nextPageClick_st:
  "st (snd (nextPageClick tp w)) = (st w)\<lparr>currentPage := currentPage (st (snd (nextPageClick tp w)))\<rparr>"
  unfolding nextPageClick_def by (simp add: renderProducts_scroll_st)

lemma buttonClick_st:
  "st (snd (buttonClick b w)) = (st w)\<lparr>currentPage := currentPage (st (snd (buttonClick b w)))\<rparr>"
proof (cases b)
  case None
  then show ?thesis by (simp add: buttonClick_def)
next
  case (Some btn)
  show ?thesis
  proof (cases "onclick btn")
    case None
    with Some show ?thesis by (simp add: buttonClick_def)
  next
    case (Some h)
    with \<open>b = Some btn\<close> show ?thesis
      using prevPageClick_st nextPageClick_st by (cases h) (simp_all add: buttonClick_def)
  qed
qed

lemma buttonClick_selection:
  "currentFandom (st (snd (buttonClick b w))) = currentFandom (st w)"
  "currentProductType (st (snd (buttonClick b w))) = currentProductType (st w)"
  using buttonClick_st [of b w]
  by (metis state.select_convs(2) state.surjective state.update_convs(4),
      metis state.select_convs(3) state.surjective state.update_convs(4))




lemma buttonClick_page_positive:
  assumes "1 \<le> currentPage (st w)"
  shows "1 \<le> currentPage (st (snd (buttonClick b w)))"
proof (cases b)
  case None
  with assms show ?thesis by (simp add: buttonClick_def)
next
  case (Some btn)
  show ?thesis
  proof (cases "onclick btn")
    case None
    with Some assms show ?thesis by (simp add: buttonClick_def)
  next
    case (Some h)
    with \<open>b = Some btn\<close> assms show ?thesis
      by (cases h) (simp_all add: buttonClick_def prevPageClick_page nextPageClick_page)
  qed
qed

lemma dispatch_page_positive:
  assumes "1 \<le> currentPage (st w)"
  shows "1 \<le> currentPage (st (snd (dispatch e w)))"
proof (cases e)
  case (FandomFilterClicked i)
  then show ?thesis
    using assms handleFandomFilter_st [of i w] by auto
next
  case (FeaturedItemClicked i)
  then show ?thesis
    using assms featuredItemClick_st [of i w] by auto
next
  case (ProductTypeClicked i)
  then show ?thesis
    using assms productTypeClick_st [of i w] by auto
next
  case PrevPageClicked
  then show ?thesis
    using assms by (simp add: buttonClick_page_positive)
next
  case NextPageClicked
  then show ?thesis
    using assms by (simp add: buttonClick_page_positive)
qed

lemma run_step:
  "fst (dispatch e w) \<noteq> Unmodelled \<Longrightarrow> run (e # es) w = run es (snd (dispatch e w))"
proof (cases "dispatch e w")
  case (Pair r w1)
  assume "fst (dispatch e w) \<noteq> Unmodelled"
  with Pair show ?thesis by (cases r) simp_all
qed

lemma run_page_positive:
  "run es w = Some w' \<Longrightarrow> 1 \<le> currentPage (st w) \<Longrightarrow> 1 \<le> currentPage (st w')"
proof (induction es arbitrary: w)
  case Nil
  then show ?case by simp
next
  case (Cons e es)
  obtain r w1 where d: "dispatch e w = (r, w1)" by (cases "dispatch e w")
  have p: "1 \<le> currentPage (st w1)"
    using dispatch_page_positive [OF Cons.prems(2), of e] d by simp
  have "run es w1 = Some w'"
    using Cons.prems(1) d by (cases r) simp_all
  then show ?case using Cons.IH p by blast
qed

lemma loadGalleryData_page:
  "currentPage (st (snd (loadGalleryData r w))) = currentPage (st w)"
proof (cases "tryLoad r w")
  case (Pair e w1)
  have t: "currentPage (st w1) = currentPage (st w)"
    using Pair by (cases r) (auto simp: tryLoad_def initializeGallery_st split: if_splits option.splits
        dest: arg_cong [where f = "\<lambda>p. currentPage (st (snd p))"])
  show ?thesis
  proof (cases e)
    case Returned
    with Pair t show ?thesis by (simp add: loadGalleryData_def)
  next
    case (Threw err)
    with Pair t show ?thesis
      by (simp add: loadGalleryData_def andThen_def showErrorMessage_def initializeGallery_st
            split: option.splits)
  next
    case Unmodelled
    with Pair t show ?thesis by (simp add: loadGalleryData_def)
  qed
qed

lemma reachable_page_positive:
  "run es (snd (loadGalleryData r (initialWorld d))) = Some w \<Longrightarrow> 1 \<le> currentPage (st w)"
  by (erule run_page_positive) (simp add: loadGalleryData_page initialWorld_def initialState_def)

lemma missing_container_returns:
  "fandomFilters (doc w) = None \<Longrightarrow> renderFandomFilters w = (Returned, w)"
  "featuredGrid (doc w) = None \<Longrightarrow> renderFeaturedProducts w = (Returned, w)"
  "productTypeFilters (doc w) = None \<Longrightarrow> renderProductTypeFilters f w = (Returned, w)"
  "productGrid (doc w) = None \<Longrightarrow> snd (renderProducts w) = w"
  by (simp_all add: renderFandomFilters_def renderFeaturedProducts_def
        renderProductTypeFilters_def renderProducts_def Let_def split: option.splits sum.splits)

lemma missing_button_throws:
  "prevPage (doc w) = None \<or> nextPage (doc w) = None \<Longrightarrow>
     fst (updatePaginationControls n tp w) = Threw TypeError"
  by (auto simp: updatePaginationControls_def Let_def split: option.splits)

lemma missing_view_throws:
  "featuredView (doc w) = None \<or> fandomView (doc w) = None \<Longrightarrow>
     fst (showFeaturedView w) = Threw TypeError"
  by (auto simp: showFeaturedView_def andThen_def setFeaturedViewDisplay_def
        setFandomViewDisplay_def split: option.splits)

lemma productTypeBtn_types:
  "map data_type_html (concat (map (productTypeBtn pts f) kis)) =
     filter (\<lambda>k. k \<in> type_id ` set pts) (map fst kis)"
proof (induction kis)
  case Nil
  then show ?case by simp
next
  case (Cons ki kis)
  show ?case
  proof (cases "find (\<lambda>pt. type_id pt = fst ki) pts")
    case None
    then have "fst ki \<notin> type_id ` set pts"
      by (auto simp: find_None_iff)
    with None Cons.IH show ?thesis
      by (simp add: productTypeBtn_def)
  next
    case (Some pt)
    then have "type_id pt = fst ki" and "fst ki \<in> type_id ` set pts"
      by (auto simp: find_Some_iff image_iff) (metis nth_mem)
    with Some Cons.IH show ?thesis
      by (simp add: productTypeBtn_def)
  qed
qed

lemma productTypeBtns_types:
  "map data_type_html (productTypeBtns pts f) =
     filter (\<lambda>k. k \<in> type_id ` set pts) (map fst (products f))"
  unfolding productTypeBtns_def productTypeBtn_types by simp

lemma productTypeBtns_first_active:
  assumes "products f = (k, ps) # rest" and "find (\<lambda>pt. type_id pt = k) pts = Some pt"
  shows "productTypeBtns pts f \<noteq> [] \<and> type_active (hd (productTypeBtns pts f))"
  using assms
  by (simp add: productTypeBtns_def productTypeBtn_def upt_conv_Cons del: upt_Suc)

section \<open>Pagination of the product grid\<close>

text \<open>
  C1. With a product list of length \<open>n\<close> for the selected type (the fandom's own list,
  or the empty list when the fandom has no property of that name and none is
  inherited) and six tiles to a page, \<^verbatim>\<open>renderProducts\<close> writes to the grid one tile
  for each product of the slice \<open>[(k - 1) * 6, (k - 1) * 6 + 6)\<close> of the list, in order:
  \<open>min 6 (n - (k - 1) * 6)\<close> tiles on a page \<open>1 \<le> k \<le> totalPages\<close> and none on a page
  \<open>k > totalPages\<close>, where \<open>totalPages = \<lceil>n / 6\<rceil>\<close>. With the two pagination buttons
  on the page it returns normally, and \<open>totalPages\<close> is the value its "next" handler
  captures.
\<close>

theorem C1_page_tiles:
  assumes "currentFandom (st w) = Some f" and "selectedProducts (st w) f = Inr prods"
    and "productGrid (doc w) = Some g" and "1 \<le> currentPage (st w)"
  shows "let n = int (length prods);
             k = currentPage (st w);
             totalPages = \<lceil>real_of_int n / 6\<rceil>;
             w' = snd (renderProducts w)
         in productGrid (doc w') =
              Some (map productItem (take 6 (drop (nat ((k - 1) * 6)) prods)))
          \<and> map_option (\<lambda>tiles. int (length tiles)) (productGrid (doc w')) =
              Some (if k \<le> totalPages then min 6 (n - (k - 1) * 6) else 0)
          \<and> (prevPage (doc w) \<noteq> None \<and> nextPage (doc w) \<noteq> None \<longrightarrow>
                fst (renderProducts w) = Returned
              \<and> map_option onclick (nextPage (doc w')) = Some (Some (NextPageHandler totalPages)))"
proof -
  have grid: "productGrid (doc (snd (renderProducts w))) =
      Some (map productItem (take 6 (drop (nat ((currentPage (st w) - 1) * 6)) prods)))"
    by (simp only: renderProducts_grid [OF assms(1-3)] js_slice_page [OF assms(4)])
  have len: "map_option (\<lambda>tiles. int (length tiles)) (productGrid (doc (snd (renderProducts w)))) =
      Some (if currentPage (st w) \<le> (int (length prods) + 5) div 6
       then min 6 (int (length prods) - (currentPage (st w) - 1) * 6) else 0)"
    unfolding grid option.map length_map by (simp only: page_length [OF assms(4)])
  have btn: "fst (renderProducts w) = Returned
      \<and> map_option onclick (nextPage (doc (snd (renderProducts w)))) =
          Some (Some (NextPageHandler ((int (length prods) + 5) div 6)))"
    if present: "prevPage (doc w) \<noteq> None \<and> nextPage (doc w) \<noteq> None"
  proof -
    obtain pb nb where b: "prevPage (doc w) = Some pb" "nextPage (doc w) = Some nb"
      using present by auto
    show ?thesis
      using renderProducts_ok(1,2) [OF assms(1-3) b] by (simp add: totalPages_div)
  qed
  show ?thesis
    unfolding Let_def totalPages_ceiling
    using grid len btn by blast
qed

text \<open>
  Thirteen products: six tiles on pages 1 and 2, one on page 3, none on page 4, and
  three pages in all.
\<close>

theorem C1_page_tiles_witness:
  "map_option length (productGrid (doc (snd (renderProducts (pageWorld 1))))) = Some 6
   \<and> map_option length (productGrid (doc (snd (renderProducts (pageWorld 2))))) = Some 6
   \<and> map_option length (productGrid (doc (snd (renderProducts (pageWorld 3))))) = Some 1
   \<and> map_option length (productGrid (doc (snd (renderProducts (pageWorld 4))))) = Some 0
   \<and> fst (renderProducts (pageWorld 3)) = Returned
   \<and> map_option onclick (nextPage (doc (snd (renderProducts (pageWorld 3)))))
        = Some (Some (NextPageHandler 3))"
proof -
  have h: "currentFandom (st (pageWorld k)) = Some sampleFandom"
    "selectedProducts (st (pageWorld k)) sampleFandom = Inr (map sampleProduct [0 ..< 13])"
    "productGrid (doc (pageWorld k)) = Some []" for k
    by (simp_all add: sample_products) (simp_all add: pageWorld_def fullDocument_def)
  have b: "prevPage (doc (pageWorld k)) \<noteq> None" "nextPage (doc (pageWorld k)) \<noteq> None"
    "currentPage (st (pageWorld k)) = k" for k
    by (simp_all add: pageWorld_def fullDocument_def)
  have c3: "\<lceil>(13::real) / 6\<rceil> = 3"
    by (simp add: ceiling_eq_iff)
  show ?thesis
    using C1_page_tiles [OF h, of 1] C1_page_tiles [OF h, of 2]
      C1_page_tiles [OF h, of 3] C1_page_tiles [OF h, of 4]
    by (simp add: b Let_def c3 option.map_comp comp_def del: map_option_eq_Some)
qed

text \<open>
  C6. After \<^verbatim>\<open>updatePaginationControls\<close> the "previous" button is disabled exactly
  when \<open>currentPage = 1\<close>, and the "next" button exactly when
  \<open>currentPage = totalPages\<close> or \<open>totalPages = 0\<close>.
\<close>

theorem C6_controls_disabled:
  assumes "prevPage (doc w) = Some pb" and "nextPage (doc w) = Some nb"
  shows "fst (updatePaginationControls totalItems totalPages w) = Returned
       \<and> map_option disabled (prevPage (doc (snd (updatePaginationControls totalItems totalPages w))))
           = Some (currentPage (st (snd (updatePaginationControls totalItems totalPages w))) = 1)
       \<and> map_option disabled (nextPage (doc (snd (updatePaginationControls totalItems totalPages w))))
           = Some (currentPage (st (snd (updatePaginationControls totalItems totalPages w))) = totalPages
                   \<or> totalPages = 0)"
  by (simp add: updatePaginationControls_ok [OF assms])

text \<open>Three pages: "next" is disabled on page 3 only, "previous" on page 1 only.\<close>

theorem C6_controls_disabled_witness:
  "map_option disabled (nextPage (doc (snd (updatePaginationControls 13 3 (pageWorld 1))))) = Some False
   \<and> map_option disabled (nextPage (doc (snd (updatePaginationControls 13 3 (pageWorld 2))))) = Some False
   \<and> map_option disabled (nextPage (doc (snd (updatePaginationControls 13 3 (pageWorld 3))))) = Some True
   \<and> map_option disabled (prevPage (doc (snd (updatePaginationControls 13 3 (pageWorld 1))))) = Some True
   \<and> map_option disabled (prevPage (doc (snd (updatePaginationControls 13 3 (pageWorld 3))))) = Some False
   \<and> map_option disabled (nextPage (doc (snd (updatePaginationControls 0 0 (pageWorld 1))))) = Some True"
proof -
  have h: "prevPage (doc (pageWorld k)) = Some \<lparr>disabled = False, onclick = None\<rparr>"
    "nextPage (doc (pageWorld k)) = Some \<lparr>disabled = False, onclick = None\<rparr>" for k
    by (simp_all add: pageWorld_def fullDocument_def)
  have s: "currentPage (st (snd (updatePaginationControls n tp (pageWorld k)))) = k" for n tp k
    by (simp add: updatePaginationControls_st pageWorld_def)
  show ?thesis
    using C6_controls_disabled [where w = "pageWorld 1" and totalItems = 13 and totalPages = 3, OF h]
      C6_controls_disabled [where w = "pageWorld 2" and totalItems = 13 and totalPages = 3, OF h]
      C6_controls_disabled [where w = "pageWorld 3" and totalItems = 13 and totalPages = 3, OF h]
      C6_controls_disabled [where w = "pageWorld 1" and totalItems = 0 and totalPages = 0, OF h]
    by (simp add: s del: map_option_eq_Some)
qed

text \<open>
  C7. After a render that has found a product list of length \<open>n\<close> and bound the
  handlers, with \<open>totalPages = \<lceil>n / 6\<rceil>\<close>: a click on "previous" takes one from
  \<open>currentPage\<close> unless the page is 1, and a click on "next" adds one unless the page
  is \<open>totalPages\<close> or there are no pages; from a page in \<open>[1, totalPages]\<close> both
  clicks end on a page in \<open>[1, totalPages]\<close>. Nothing wraps around. The page is at least
  1 in every state the script reaches by clicks from any document and any fetch result
  (\<open>reachable_page_positive\<close>).
\<close>

theorem C7_page_stays_in_range:
  assumes "currentFandom (st w) = Some f" and "selectedProducts (st w) f = Inr prods"
    and "productGrid (doc w) = Some g"
    and "prevPage (doc w) = Some pb" and "nextPage (doc w) = Some nb"
    and "1 \<le> currentPage (st w)"
  shows "let k = currentPage (st w);
             totalPages = \<lceil>real (length prods) / 6\<rceil>;
             w1 = snd (renderProducts w);
             kprev = currentPage (st (snd (dispatch PrevPageClicked w1)));
             knext = currentPage (st (snd (dispatch NextPageClicked w1)))
         in kprev = (if k = 1 then k else k - 1)
          \<and> knext = (if k = totalPages \<or> totalPages = 0 then k
                      else if k < totalPages then k + 1 else k)
          \<and> (k \<le> totalPages \<longrightarrow> 1 \<le> kprev \<and> kprev \<le> totalPages
                                  \<and> 1 \<le> knext \<and> knext \<le> totalPages)"
proof -
  define w1 where "w1 = snd (renderProducts w)"
  define tp where "tp = math_ceil_div (int (length prods)) itemsPerPage"
  have tp: "\<lceil>real (length prods) / 6\<rceil> = tp"
    by (simp add: tp_def math_ceil_div_def itemsPerPage_def)
  have tp0: "0 \<le> tp"
    unfolding tp_def totalPages_div by simp
  have k1: "currentPage (st w1) = currentPage (st w)"
    by (simp add: w1_def renderProducts_st)
  have p: "dispatch PrevPageClicked w1 = prevPageClick w1"
    using renderProducts_ok(3) [OF assms(1-5)] by (simp add: w1_def buttonClick_def)
  have n: "dispatch NextPageClicked w1 = nextPageClick tp w1"
    using renderProducts_ok(2) [OF assms(1-5)] by (simp add: w1_def buttonClick_def tp_def)
  show ?thesis
    unfolding Let_def tp w1_def [symmetric] p n prevPageClick_page nextPageClick_page k1
    using assms(6) tp0 by auto
qed

text \<open>Thirteen products: pages 1 and 3 are the two ends.\<close>

theorem C7_page_stays_in_range_witness:
  "currentPage (st (snd (dispatch PrevPageClicked (snd (renderProducts (pageWorld 1)))))) = 1
   \<and> currentPage (st (snd (dispatch NextPageClicked (snd (renderProducts (pageWorld 1)))))) = 2
   \<and> currentPage (st (snd (dispatch PrevPageClicked (snd (renderProducts (pageWorld 3)))))) = 2
   \<and> currentPage (st (snd (dispatch NextPageClicked (snd (renderProducts (pageWorld 3)))))) = 3"
proof -
  have h: "currentFandom (st (pageWorld k)) = Some sampleFandom"
    "selectedProducts (st (pageWorld k)) sampleFandom = Inr (map sampleProduct [0 ..< 13])"
    "productGrid (doc (pageWorld k)) = Some []"
    "prevPage (doc (pageWorld k)) = Some \<lparr>disabled = False, onclick = None\<rparr>"
    "nextPage (doc (pageWorld k)) = Some \<lparr>disabled = False, onclick = None\<rparr>" for k
    by (simp_all add: sample_products) (simp_all add: pageWorld_def fullDocument_def)
  have k: "currentPage (st (pageWorld k)) = k" for k
    by (simp add: pageWorld_def)
  have c3: "\<lceil>(13::real) / 6\<rceil> = 3"
    by (simp add: ceiling_eq_iff)
  show ?thesis
    using C7_page_stays_in_range [OF h, of 1] C7_page_stays_in_range [OF h, of 3]
    by (simp add: k Let_def c3)
qed

section \<open>A product type the fandom has no products of\<close>

text \<open>
  C8 says that \<^verbatim>\<open>renderProducts\<close> has a result for every state: nothing happens with
  no current fandom (\<open>renderProducts_null\<close>); a product type the fandom has no entry for
  gives the empty list, zero pages and no tiles, not an error; a page out of range gives
  a short or empty page (\<open>renderProducts_at_most_page\<close>, and C1). The second part is what
  \<^verbatim>\<open>|| []\<close> is there for, and it holds when the read gives \<^verbatim>\<open>undefined\<close>, as for the
  type \<^verbatim>\<open>stickers\<close> below. It fails for a name every object inherits: the sample
  fandom has no products of the type \<^verbatim>\<open>constructor\<close>, the read gives the inherited
  function, and \<^verbatim>\<open>renderProducts\<close> throws a \<^verbatim>\<open>TypeError\<close> at \<^verbatim>\<open>products.slice\<close>,
  with nothing written. The script reaches such a state by clicks: with a product type
  whose id is \<^verbatim>\<open>&#99;onstructor\<close>, the button's \<^verbatim>\<open>data-type\<close> attribute reads
  \<^verbatim>\<open>constructor\<close>, and a click on the button ends in that \<^verbatim>\<open>TypeError\<close>.
\<close>

theorem C8_inherited_name_throws:
  "currentFandom (st (inheritedNameWorld 1)) = Some sampleFandom
   \<and> currentProductType (st (inheritedNameWorld 1)) = ''constructor''
   \<and> map_of (products sampleFandom) ''constructor'' = None
   \<and> renderProducts (inheritedNameWorld 1) = (Threw TypeError, inheritedNameWorld 1)
   \<and> map_of (products sampleFandom) (currentProductType (st missingTypeWorld)) = None
   \<and> fst (renderProducts missingTypeWorld) = Returned
   \<and> productGrid (doc (snd (renderProducts missingTypeWorld))) = Some []
   \<and> run [FandomFilterClicked 1] (loadCatalog referenceTypeCatalog fullDocument)
        = Some referenceTypeWorld
   \<and> map_option (map data_type_html) (productTypeFilters (doc referenceTypeWorld))
        = Some [''&#99;onstructor'']
   \<and> attributeValue ''&#99;onstructor'' = Some ''constructor''
   \<and> fst (dispatch (ProductTypeClicked 0) referenceTypeWorld) = Threw TypeError
   \<and> currentProductType (st (snd (dispatch (ProductTypeClicked 0) referenceTypeWorld)))
        = ''constructor''"
proof -
  have f: "currentFandom (st (inheritedNameWorld 1)) = Some sampleFandom"
    "currentProductType (st (inheritedNameWorld 1)) = ''constructor''"
    by (simp_all add: inheritedNameWorld_def pageWorld_def)
  have m: "map_of (products sampleFandom) ''constructor'' = None"
    by (simp add: sampleFandom_def)
  have i: "selectedProducts (st (inheritedNameWorld 1)) sampleFandom = Inl TypeError"
    by (rule selectedProducts_inherited)
      (simp add: f(2) m getProperty_def objectPrototypeNames_def)
  have r: "renderProducts (inheritedNameWorld 1) = (Threw TypeError, inheritedNameWorld 1)"
    using renderProducts_inherited [OF f(1) i] .
  have s: "map_of (products sampleFandom) (currentProductType (st missingTypeWorld)) = None"
    "fst (renderProducts missingTypeWorld) = Returned"
    "productGrid (doc (snd (renderProducts missingTypeWorld))) = Some []"
    by code_simp+
  have c: "map_option (map data_type_html) (productTypeFilters (doc referenceTypeWorld))
        = Some [''&#99;onstructor'']"
    "attributeValue ''&#99;onstructor'' = Some ''constructor''"
    "fst (dispatch (ProductTypeClicked 0) referenceTypeWorld) = Threw TypeError"
    "currentProductType (st (snd (dispatch (ProductTypeClicked 0) referenceTypeWorld)))
        = ''constructor''"
    by code_simp+
  have d: "fst (dispatch (FandomFilterClicked 1) (loadCatalog referenceTypeCatalog fullDocument))
        = Returned"
    by code_simp
  have u: "run [FandomFilterClicked 1] (loadCatalog referenceTypeCatalog fullDocument)
        = Some referenceTypeWorld"
    using d by (simp add: run_step referenceTypeWorld_def del: dispatch.simps run.simps(2))
  show ?thesis
    using f m r s u c by blast
qed

section \<open>The featured view\<close>



section \<open>Loading the catalog\<close>

text \<open>
  C5. When the fetch fails (the request is rejected, the response is not \<^verbatim>\<open>ok\<close>, or
  the body does not parse), \<^verbatim>\<open>loadGalleryData\<close> returns normally with the fallback
  catalog as \<^verbatim>\<open>state.galleryData\<close>: one fandom and one product type. The
  initialization has run on it: the fandom filters and the featured grid, where the
  document has them, show the fallback fandom.
\<close>

theorem C5_fallback_on_failure:
  assumes "fetchFailed r"
  shows "fst (loadGalleryData r w) = Returned
       \<and> galleryData (st (snd (loadGalleryData r w))) = Some getFallbackData
       \<and> length (fandoms getFallbackData) = 1
       \<and> length (productTypes getFallbackData) = 1
       \<and> (fandomFilters (doc w) \<noteq> None \<longrightarrow>
            fandomFilters (doc (snd (loadGalleryData r w))) =
              Some (allFilterBtn # map fandomFilterBtn (fandoms getFallbackData)))
       \<and> (featuredGrid (doc w) \<noteq> None \<longrightarrow>
            featuredGrid (doc (snd (loadGalleryData r w))) =
              Some (map featuredItem (fandoms getFallbackData)))"
proof -
  obtain e where e: "tryLoad r w = (Threw e, w)"
    using tryLoad_failed [OF assms] by blast
  define w1 where
    "w1 = (snd (showErrorMessage (w\<lparr>console := console w @ [e]\<rparr>)))
            \<lparr>st := (st w)\<lparr>galleryData := Some getFallbackData\<rparr>\<rparr>"
  have l: "loadGalleryData r w = initializeGallery w1"
    unfolding w1_def by (rule loadGalleryData_failed [OF e])
  have g: "galleryData (st w1) = Some getFallbackData"
    by (simp add: w1_def)
  have d: "fandomFilters (doc w1) = fandomFilters (doc w)"
    "featuredGrid (doc w1) = featuredGrid (doc w)"
    by (simp_all add: w1_def showErrorMessage_doc)
  have t: "take 6 (fandoms getFallbackData) = fandoms getFallbackData"
    by (simp add: getFallbackData_def)
  show ?thesis
    unfolding l
    using initializeGallery_filters [OF g] initializeGallery_grid [OF g]
    by (auto simp: initializeGallery_returns initializeGallery_st g d t)
      (simp_all add: getFallbackData_def)
qed

text \<open>The three kinds of failure, on a document with every element.\<close>

theorem C5_fallback_on_failure_witness:
  "fetchFailed FetchRejected \<and> fetchFailed (Response False 404 None)
   \<and> fetchFailed (Response True 200 None)
   \<and> fst (loadGalleryData FetchRejected (initialWorld fullDocument)) = Returned
   \<and> galleryData (st (snd (loadGalleryData FetchRejected (initialWorld fullDocument))))
       = Some getFallbackData
   \<and> galleryData (st (snd (loadGalleryData (Response False 404 None) (initialWorld fullDocument))))
       = Some getFallbackData
   \<and> galleryData (st (snd (loadGalleryData (Response True 200 None) (initialWorld fullDocument))))
       = Some getFallbackData
   \<and> map_option (map data_fandom_html)
        (fandomFilters (doc (snd (loadGalleryData FetchRejected (initialWorld fullDocument)))))
       = Some [''all'', ''isaac'']"
proof -
  have f: "fetchFailed FetchRejected" "fetchFailed (Response False 404 None)"
    "fetchFailed (Response True 200 None)"
    by simp_all
  have d: "fandomFilters (doc (initialWorld fullDocument)) \<noteq> None"
    by (simp add: initialWorld_def fullDocument_def)
  show ?thesis
    using C5_fallback_on_failure [OF f(1), of "initialWorld fullDocument"]
      C5_fallback_on_failure [OF f(2), of "initialWorld fullDocument"]
      C5_fallback_on_failure [OF f(3), of "initialWorld fullDocument"]
    by (simp add: d allFilterBtn_def fandomFilterBtn_def getFallbackData_def)
qed

section \<open>The two views\<close>




section \<open>Resetting the page\<close>

text \<open>
  C3 does not hold for the return to the featured view. On page 2 of a fandom, reached
  from the loaded catalog by selecting the fandom and clicking "next", a click on "all"
  changes the current fandom to null and leaves \<open>currentPage\<close> at 2:
  \<^verbatim>\<open>showFeaturedView\<close> does not assign the page.
\<close>

theorem C3_page_reset_counterexample:
  "run [FandomFilterClicked 2, NextPageClicked] loadedWorld = Some pageTwoWorld
   \<and> currentFandom (st pageTwoWorld) = Some sampleFandom
   \<and> currentPage (st pageTwoWorld) = 2
   \<and> currentFandom (st (snd (dispatch (FandomFilterClicked 0) pageTwoWorld))) = None
   \<and> currentPage (st (snd (dispatch (FandomFilterClicked 0) pageTwoWorld))) = 2"
proof -
  have r: "fst (dispatch (FandomFilterClicked 2) loadedWorld) = Returned"
    "fst (dispatch NextPageClicked (snd (dispatch (FandomFilterClicked 2) loadedWorld))) = Returned"
    by code_simp+
  have "run [FandomFilterClicked 2, NextPageClicked] loadedWorld = Some pageTwoWorld"
    using r by (simp add: run_step pageTwoWorld_def del: dispatch.simps run.simps(2))
  moreover have "currentFandom (st pageTwoWorld) = Some sampleFandom"
    "currentPage (st pageTwoWorld) = 2"
    "currentFandom (st (snd (dispatch (FandomFilterClicked 0) pageTwoWorld))) = None"
    "currentPage (st (snd (dispatch (FandomFilterClicked 0) pageTwoWorld))) = 2"
    by code_simp+
  ultimately show ?thesis by blast
qed

text \<open>
  C3, amended. Every click that changes the current fandom to another fandom, or changes
  the current product type, leaves \<open>currentPage\<close> at 1. \<^verbatim>\<open>showFeaturedView\<close>, which
  sets the current fandom to null, leaves \<open>currentPage\<close> as it was.
\<close>

theorem C3_page_reset_on_selection:
  "((currentFandom (st (snd (dispatch e w))) \<noteq> currentFandom (st w)
       \<and> currentFandom (st (snd (dispatch e w))) \<noteq> None)
     \<or> currentProductType (st (snd (dispatch e w))) \<noteq> currentProductType (st w)
     \<longrightarrow> currentPage (st (snd (dispatch e w))) = 1)
   \<and> currentPage (st (snd (showFeaturedView w))) = currentPage (st w)"
proof (intro conjI impI)
  assume a: "(currentFandom (st (snd (dispatch e w))) \<noteq> currentFandom (st w)
       \<and> currentFandom (st (snd (dispatch e w))) \<noteq> None)
     \<or> currentProductType (st (snd (dispatch e w))) \<noteq> currentProductType (st w)"
  show "currentPage (st (snd (dispatch e w))) = 1"
  proof (cases e)
    case (FandomFilterClicked i)
    then show ?thesis
      using a handleFandomFilter_st [of i w] by auto
  next
    case (FeaturedItemClicked i)
    then show ?thesis
      using a featuredItemClick_st [of i w] by auto
  next
    case (ProductTypeClicked i)
    then show ?thesis
      using a productTypeClick_st [of i w] by auto
  next
    case PrevPageClicked
    then show ?thesis
      using a by (simp add: buttonClick_selection)
  next
    case NextPageClicked
    then show ?thesis
      using a by (simp add: buttonClick_selection)
  qed
next
  show "currentPage (st (snd (showFeaturedView w))) = currentPage (st w)"
    by (rule showFeaturedView_page)
qed

text \<open>From page 2 of one fandom, selecting the other fandom gives page 1.\<close>

theorem C3_page_reset_on_selection_witness:
  "currentPage (st pageTwoWorld) = 2
   \<and> currentFandom (st (snd (dispatch (FandomFilterClicked 1) pageTwoWorld)))
       \<noteq> currentFandom (st pageTwoWorld)
   \<and> currentFandom (st (snd (dispatch (FandomFilterClicked 1) pageTwoWorld))) \<noteq> None
   \<and> currentPage (st (snd (dispatch (FandomFilterClicked 1) pageTwoWorld))) = 1"
proof -
  have h: "currentPage (st pageTwoWorld) = 2"
    "currentFandom (st (snd (dispatch (FandomFilterClicked 1) pageTwoWorld)))
       \<noteq> currentFandom (st pageTwoWorld)"
    "currentFandom (st (snd (dispatch (FandomFilterClicked 1) pageTwoWorld))) \<noteq> None"
    by code_simp+
  show ?thesis
    using C3_page_reset_on_selection [of "FandomFilterClicked 1" pageTwoWorld] h by blast
qed

section \<open>Missing elements\<close>

text \<open>
  C2 says that an operation whose element is missing returns early, raises nothing and
  changes nothing. The renderers of the filter and grid containers do so
  (\<open>missing_container_returns\<close>). The pagination buttons and the view containers are
  used with no check (\<open>missing_button_throws\<close>, \<open>missing_view_throws\<close>). On a page
  with no "previous" button, selecting a fandom ends in a \<^verbatim>\<open>TypeError\<close>, raised by
  \<^verbatim>\<open>updatePaginationControls\<close> inside \<^verbatim>\<open>renderProducts\<close> after the six tiles of
  the first page were written to the grid, and every later render raises it again. On
  a page with no featured-view container \<^verbatim>\<open>showFandomDetail\<close> raises a
  \<^verbatim>\<open>TypeError\<close> after it has set the current fandom.
\<close>

theorem C2_missing_element_throws:
  "productGrid (doc noPrevButtonWorld) = Some []
   \<and> fst (dispatch (FandomFilterClicked 2) noPrevButtonWorld) = Threw TypeError
   \<and> map_option length
        (productGrid (doc (snd (dispatch (FandomFilterClicked 2) noPrevButtonWorld)))) = Some 6
   \<and> fst (renderProducts (snd (dispatch (FandomFilterClicked 2) noPrevButtonWorld)))
        = Threw TypeError
   \<and> fst (updatePaginationControls 13 3 (snd (dispatch (FandomFilterClicked 2) noPrevButtonWorld)))
        = Threw TypeError
   \<and> currentFandom (st noFeaturedViewWorld) = None
   \<and> fst (showFandomDetail ''zelda'' noFeaturedViewWorld) = Threw TypeError
   \<and> currentFandom (st (snd (showFandomDetail ''zelda'' noFeaturedViewWorld)))
        = Some sampleFandom"
  by code_simp

section \<open>The active product-type control\<close>

text \<open>
  C4 says that the first control emitted is marked active, also when the first key of
  the fandom's products names no product type. The rebuild emits one control for each
  key that names a product type, in key order (\<open>productTypeBtns_types\<close>), and marks
  the first one active when the first key names a product type
  (\<open>productTypeBtns_first_active\<close>). It marks the control of the key at position 0
  only: for the keys \<^verbatim>\<open>stickers\<close>, \<^verbatim>\<open>llaveros\<close> and the single product type
  \<^verbatim>\<open>llaveros\<close> it emits one control, and that control is not active.
\<close>

theorem C4_first_control_not_active:
  "map fst (products unresolvedFirstFandom) = [''stickers'', ''llaveros'']
   \<and> map type_id (productTypes getFallbackData) = [''llaveros'']
   \<and> map (\<lambda>b. (data_type_html b, type_active b))
        (productTypeBtns (productTypes getFallbackData) unresolvedFirstFandom)
       = [(''llaveros'', False)]
   \<and> map_option (map type_active)
        (productTypeFilters (doc (snd (renderProductTypeFilters unresolvedFirstFandom loadedWorld))))
       = Some [False]"
  by code_simp

end
